theory Spec2Isabelle
  imports Complex_Main
begin

section \<open>Exceptions and results\<close>

text \<open>
  The exception classes that the functions of \<^verbatim>\<open>cost_calculation.py\<close> can raise.
  A function that can raise returns \<open>exc + 'a\<close>, with \<open>Inl\<close> for the exception.
  \<open>ValueError\<close> also stands for its subclass \<open>json.JSONDecodeError\<close>, which an
  \<^verbatim>\<open>except ValueError\<close> clause catches.
\<close>

datatype exc =
    KeyError | ValueError | TypeError | ZeroDivisionError | AttributeError
  | UnboundLocalError | IndexError | OverflowError | AssertionError

section \<open>Calendar dates\<close>

text \<open>
  \<^verbatim>\<open>datetime.datetime\<close> (naive): the seven fields of the object. Python only ever
  constructs objects that satisfy \<open>valid_datetime\<close>.
\<close>

record datetime =
  year :: int
  month :: int
  day :: int
  hour :: int
  minute :: int
  second :: int
  microsecond :: int

definition is_leap :: "int \<Rightarrow> bool" where
  "is_leap y = (y mod 4 = 0 \<and> (y mod 100 \<noteq> 0 \<or> y mod 400 = 0))"

definition days_in_month :: "int \<Rightarrow> int \<Rightarrow> int" where
  "days_in_month y m =
     (if m = 2 then (if is_leap y then 29 else 28)
      else if m = 4 \<or> m = 6 \<or> m = 9 \<or> m = 11 then 30 else 31)"

definition valid_date :: "int \<Rightarrow> int \<Rightarrow> int \<Rightarrow> bool" where
  "valid_date y m d =
     (1 \<le> y \<and> y \<le> 9999 \<and> 1 \<le> m \<and> m \<le> 12 \<and> 1 \<le> d \<and> d \<le> days_in_month y m)"

definition valid_datetime :: "datetime \<Rightarrow> bool" where
  "valid_datetime dt =
     (valid_date (year dt) (month dt) (day dt)
      \<and> 0 \<le> hour dt \<and> hour dt < 24 \<and> 0 \<le> minute dt \<and> minute dt < 60
      \<and> 0 \<le> second dt \<and> second dt < 60
      \<and> 0 \<le> microsecond dt \<and> microsecond dt < 1000000)"

text \<open>
  \<^verbatim>\<open>dt.replace(year=y, month=m, day=d)\<close>: a new object with the date fields replaced;
  \<open>ValueError\<close> when the new date does not exist.
\<close>

definition replace_date :: "datetime \<Rightarrow> int \<Rightarrow> int \<Rightarrow> int \<Rightarrow> exc + datetime" where
  "replace_date dt y m d =
     (if valid_date y m d then Inr (dt\<lparr>year := y, month := m, day := d\<rparr>)
      else Inl ValueError)"

text \<open>
  \<^verbatim>\<open>dt + timedelta(days=n)\<close>, one calendar day at a time; \<open>OverflowError\<close> when the
  result leaves the years 1..9999. The time of day is kept.
\<close>

definition prev_day :: "datetime \<Rightarrow> exc + datetime" where
  "prev_day dt =
     (if 1 < day dt then Inr (dt\<lparr>day := day dt - 1\<rparr>)
      else if 1 < month dt
        then Inr (dt\<lparr>month := month dt - 1, day := days_in_month (year dt) (month dt - 1)\<rparr>)
      else if 1 < year dt then Inr (dt\<lparr>year := year dt - 1, month := 12, day := 31\<rparr>)
      else Inl OverflowError)"

definition next_day :: "datetime \<Rightarrow> exc + datetime" where
  "next_day dt =
     (if day dt < days_in_month (year dt) (month dt) then Inr (dt\<lparr>day := day dt + 1\<rparr>)
      else if month dt < 12 then Inr (dt\<lparr>month := month dt + 1, day := 1\<rparr>)
      else if year dt < 9999 then Inr (dt\<lparr>year := year dt + 1, month := 1, day := 1\<rparr>)
      else Inl OverflowError)"

primrec iter_exc :: "nat \<Rightarrow> ('a \<Rightarrow> exc + 'a) \<Rightarrow> 'a \<Rightarrow> exc + 'a" where
  "iter_exc 0 f x = Inr x"
| "iter_exc (Suc n) f x = (case f x of Inl e \<Rightarrow> Inl e | Inr y \<Rightarrow> iter_exc n f y)"

definition add_days :: "datetime \<Rightarrow> int \<Rightarrow> exc + datetime" where
  "add_days dt n =
     (if 0 \<le> n then iter_exc (nat n) next_day dt else iter_exc (nat (- n)) prev_day dt)"

section \<open>DateMatcher\<close>

text \<open>
  \<^verbatim>\<open>
  def last_day_of_month(date) -> datetime:
      if date.month == 12:
          return date.replace(day=31)
      return date.replace(month=date.month + 1, day=1) - timedelta(days=1)
  \<close>
\<close>

definition last_day_of_month :: "datetime \<Rightarrow> exc + datetime" where
  "last_day_of_month date =
     (if month date = 12 then replace_date date (year date) (month date) 31
      else (case replace_date date (year date) (month date + 1) 1 of
              Inl e \<Rightarrow> Inl e
            | Inr d \<Rightarrow> add_days d (- 1)))"

text \<open>
  \<^verbatim>\<open>
  def check_matched_day(current_date: datetime, target_day: int) -> bool:
      last_day_of_current_month = last_day_of_month(current_date)
      if target_day > last_day_of_current_month.day:
          if current_date.day == last_day_of_current_month.day:
              return True
      else:
          if current_date.day == target_day:
              return True
      return False
  \<close>
\<close>

definition check_matched_day :: "datetime \<Rightarrow> int \<Rightarrow> exc + bool" where
  "check_matched_day current_date target_day =
     (case last_day_of_month current_date of
        Inl e \<Rightarrow> Inl e
      | Inr last_day_of_current_month \<Rightarrow>
          Inr (if target_day > day last_day_of_current_month
               then day current_date = day last_day_of_current_month
               else day current_date = target_day))"


section \<open>Values of the settings and of the configuration file\<close>

text \<open>
  What \<^verbatim>\<open>json.load\<close> returns: \<open>None\<close>, a bool, an int, a float, a str, a list or a
  dict (its items, each key once). Floats are idealised as exact rationals throughout, and
  a string is the list of its code points, all below 256 (where \<^verbatim>\<open>\d\<close> matches the ten
  ASCII digits only).
\<close>

datatype json =
    JNull | JBool bool | JInt int | JFloat rat | JStr string
  | JArr "json list" | JObj "(string \<times> json) list"

text \<open>Python's truth value of an object (\<^verbatim>\<open>if x:\<close>).\<close>

fun truthy :: "json \<Rightarrow> bool" where
  "truthy JNull = False"
| "truthy (JBool b) = b"
| "truthy (JInt i) = (i \<noteq> 0)"
| "truthy (JFloat q) = (q \<noteq> 0)"
| "truthy (JStr s) = (s \<noteq> [])"
| "truthy (JArr xs) = (xs \<noteq> [])"
| "truthy (JObj kvs) = (kvs \<noteq> [])"

text \<open>A number as an operand of \<^verbatim>\<open>/\<close>; anything else is a \<open>TypeError\<close>.\<close>

fun py_number :: "json \<Rightarrow> exc + rat" where
  "py_number (JInt i) = Inr (of_int i)"
| "py_number (JFloat q) = Inr q"
| "py_number (JBool b) = Inr (if b then 1 else 0)"
| "py_number v = Inl TypeError"

definition py_truediv :: "rat \<Rightarrow> rat \<Rightarrow> exc + rat" where
  "py_truediv a b = (if b = 0 then Inl ZeroDivisionError else Inr (a / b))"

text \<open>\<^verbatim>\<open>round(x, n)\<close>: to \<open>n\<close> decimals, a tie going to the even neighbour.\<close>

definition round_half_even :: "rat \<Rightarrow> int" where
  "round_half_even x =
     (let f = \<lfloor>x\<rfloor>; r = x - of_int f
      in if r < 1 / 2 then f else if 1 / 2 < r then f + 1
         else if even f then f else f + 1)"

definition py_round :: "rat \<Rightarrow> nat \<Rightarrow> rat" where
  "py_round x n = of_int (round_half_even (x * 10 ^ n)) / 10 ^ n"

section \<open>Strings: the three schedule patterns, \<^verbatim>\<open>int\<close> and \<^verbatim>\<open>split\<close>\<close>

definition is_digit :: "char \<Rightarrow> bool" where
  "is_digit c = (c \<in> set ''0123456789'')"

definition digit_val :: "char \<Rightarrow> int" where
  "digit_val c = of_char c - 48"

text \<open>
  Without \<^verbatim>\<open>re.MULTILINE\<close>, \<^verbatim>\<open>$\<close> matches at the end of the string and also just before
  a newline that ends the string. None of the patterns can match a newline themselves, so
  \<^verbatim>\<open>re.search("^X$", s)\<close> finds a match iff \<open>X\<close> matches all of \<open>s\<close>, or all of \<open>s\<close>
  without its final newline.
\<close>

definition dollar_variants :: "string \<Rightarrow> string list" where
  "dollar_variants s =
     s # (if s \<noteq> [] \<and> last s = CHR 0x0A then [butlast s] else [])"

text \<open>\<^verbatim>\<open>DAY_OF_MONTH_SCHEDULE_MATCH = r"^[\d]{2}$"\<close>\<close>

definition two_digits :: "string \<Rightarrow> bool" where
  "two_digits t = (case t of [a, b] \<Rightarrow> is_digit a \<and> is_digit b | _ \<Rightarrow> False)"

definition DAY_OF_MONTH_SCHEDULE_MATCH :: "string \<Rightarrow> bool" where
  "DAY_OF_MONTH_SCHEDULE_MATCH s = list_ex two_digits (dollar_variants s)"

text \<open>\<^verbatim>\<open>DATE_OF_YEAR_SCHEDULE_MATCH = r"^[\d]{2}[.][\d]{2}$"\<close>\<close>

definition day_dot_month :: "string \<Rightarrow> bool" where
  "day_dot_month t =
     (case t of
        [a, b, p, c, d] \<Rightarrow>
          is_digit a \<and> is_digit b \<and> p = CHR ''.'' \<and> is_digit c \<and> is_digit d
      | _ \<Rightarrow> False)"

definition DATE_OF_YEAR_SCHEDULE_MATCH :: "string \<Rightarrow> bool" where
  "DATE_OF_YEAR_SCHEDULE_MATCH s = list_ex day_dot_month (dollar_variants s)"

text \<open>\<^verbatim>\<open>TIME_OF_DAY_SCHEDULE_MATCH = r"^(?:[01]\d|2[0-3]):(?:[0-5]\d)$"\<close>\<close>

definition hour_colon_minute :: "string \<Rightarrow> bool" where
  "hour_colon_minute t =
     (case t of
        [a, b, p, c, d] \<Rightarrow>
          ((a \<in> set ''01'' \<and> is_digit b) \<or> (a = CHR ''2'' \<and> b \<in> set ''0123''))
          \<and> p = CHR '':'' \<and> c \<in> set ''012345'' \<and> is_digit d
      | _ \<Rightarrow> False)"

definition TIME_OF_DAY_SCHEDULE_MATCH :: "string \<Rightarrow> bool" where
  "TIME_OF_DAY_SCHEDULE_MATCH s = list_ex hour_colon_minute (dollar_variants s)"

text \<open>
  \<^verbatim>\<open>re.search(pattern, value) is not None\<close>: \<open>TypeError\<close> when the value is not a
  string.
\<close>

fun re_search :: "(string \<Rightarrow> bool) \<Rightarrow> json \<Rightarrow> exc + bool" where
  "re_search pattern (JStr s) = Inr (pattern s)"
| "re_search pattern v = Inl TypeError"

text \<open>
  \<^verbatim>\<open>int(s)\<close> on a string: surrounding whitespace is dropped, one sign is allowed, and the
  rest is decimal digits, with single underscores allowed between two digits;
  \<open>ValueError\<close> otherwise.
\<close>

definition is_space :: "char \<Rightarrow> bool" where
  "is_space c =
     (c \<in> set [CHR 0x09, CHR 0x0A, CHR 0x0B, CHR 0x0C, CHR 0x0D, CHR 0x1C, CHR 0x1D,
               CHR 0x1E, CHR 0x1F, CHR 0x20, CHR 0x85, CHR 0xA0])"

definition strip :: "string \<Rightarrow> string" where
  "strip s = rev (dropWhile is_space (rev (dropWhile is_space s)))"

fun digit_groups :: "string \<Rightarrow> bool" where
  "digit_groups [] = False"
| "digit_groups [c] = is_digit c"
| "digit_groups (c # u # cs) =
     (is_digit c \<and> (if u = CHR ''_'' then digit_groups cs else digit_groups (u # cs)))"

definition decimal_value :: "string \<Rightarrow> int" where
  "decimal_value t = foldl (\<lambda>acc c. 10 * acc + digit_val c) 0 (filter is_digit t)"

definition py_int :: "string \<Rightarrow> exc + int" where
  "py_int s =
     (let t = strip s;
          negative = (t \<noteq> [] \<and> hd t = CHR ''-'');
          body = (if t \<noteq> [] \<and> (hd t = CHR ''-'' \<or> hd t = CHR ''+'') then tl t else t)
      in if digit_groups body
         then Inr (if negative then - decimal_value body else decimal_value body)
         else Inl ValueError)"

text \<open>\<^verbatim>\<open>s.split(sep)\<close> for a separator of one character.\<close>

fun py_split :: "char \<Rightarrow> string \<Rightarrow> string list" where
  "py_split sep [] = [[]]"
| "py_split sep (c # cs) =
     (if c = sep then [] # py_split sep cs
      else (case py_split sep cs of [] \<Rightarrow> [[c]] | p # ps \<Rightarrow> (c # p) # ps))"

text \<open>\<^verbatim>\<open>xs[i]\<close> for a list and a constant index \<open>i \<ge> 0\<close>.\<close>

definition py_index :: "'a list \<Rightarrow> nat \<Rightarrow> exc + 'a" where
  "py_index xs i = (if i < length xs then Inr (xs ! i) else Inl IndexError)"

section \<open>ScheduleResolver\<close>

text \<open>
  \<^verbatim>\<open>
  def check_month_parameter(month: str) -> int:
      checked_month = int(month)
      if checked_month < 1 or checked_month > 12:
          return 1
      return checked_month
  \<close>
\<close>

definition check_month_parameter :: "string \<Rightarrow> exc + int" where
  "check_month_parameter month_str =
     (case py_int month_str of
        Inl e \<Rightarrow> Inl e
      | Inr checked_month \<Rightarrow>
          Inr (if checked_month < 1 \<or> checked_month > 12 then 1 else checked_month))"

text \<open>
  \<^verbatim>\<open>
  def check_day_parameter(day: str) -> int:
      checked_day = int(day)
      if checked_day < 1 or checked_day > 31:
          return 1
      return checked_day
  \<close>
\<close>

definition check_day_parameter :: "string \<Rightarrow> exc + int" where
  "check_day_parameter day_str =
     (case py_int day_str of
        Inl e \<Rightarrow> Inl e
      | Inr checked_day \<Rightarrow>
          Inr (if checked_day < 1 \<or> checked_day > 31 then 1 else checked_day))"

text \<open>
  \<^verbatim>\<open>
  def check_year_parameter(day_month: str) -> dict:
      values = {"day": 1, "month": 1}
      split_date = day_month.split(".")
      values["month"] = check_month_parameter(split_date[1])
      values["day"] = check_day_parameter(split_date[0])
      return values
  \<close>
\<close>

record year_values =
  values_day :: int
  values_month :: int

definition check_year_parameter :: "string \<Rightarrow> exc + year_values" where
  "check_year_parameter day_month =
     (let split_date = py_split CHR ''.'' day_month
      in case py_index split_date 1 of
           Inl e \<Rightarrow> Inl e
         | Inr month_part \<Rightarrow>
             (case check_month_parameter month_part of
                Inl e \<Rightarrow> Inl e
              | Inr m \<Rightarrow>
                  (case py_index split_date 0 of
                     Inl e \<Rightarrow> Inl e
                   | Inr day_part \<Rightarrow>
                       (case check_day_parameter day_part of
                          Inl e \<Rightarrow> Inl e
                        | Inr d \<Rightarrow> Inr \<lparr>values_day = d, values_month = m\<rparr>))))"

text \<open>
  The dict that \<^verbatim>\<open>check_cost_calc_requested\<close> returns, with its four keys.
\<close>

record schedule =
  start_schedule_task :: bool
  cost_day :: bool
  cost_month :: "int option"
  cost_year :: "year_values option"

text \<open>
  \<^verbatim>\<open>
  if ("cost_calc_day" in settings) and (settings["cost_calc_day"]):
      start_schedule_task["cost_day"] = True
      start_schedule_task["start_schedule_task"] |= True
  \<close>
\<close>

definition requested_day :: "(string \<rightharpoonup> json) \<Rightarrow> schedule \<Rightarrow> schedule" where
  "requested_day settings t =
     (case settings ''cost_calc_day'' of
        None \<Rightarrow> t
      | Some v \<Rightarrow>
          if truthy v
          then t\<lparr>cost_day := True, start_schedule_task := (start_schedule_task t \<or> True)\<rparr>
          else t)"

text \<open>
  \<^verbatim>\<open>
  if "cost_calc_month" in settings:
      if re.search(DAY_OF_MONTH_SCHEDULE_MATCH, settings["cost_calc_month"]) is not None:
          start_schedule_task["cost_month"] = check_month_parameter(settings["cost_calc_month"])
          start_schedule_task["start_schedule_task"] |= True
  \<close>
  A value that the pattern matched is a string.
\<close>

definition requested_month :: "(string \<rightharpoonup> json) \<Rightarrow> schedule \<Rightarrow> exc + schedule" where
  "requested_month settings t =
     (case settings ''cost_calc_month'' of
        None \<Rightarrow> Inr t
      | Some v \<Rightarrow>
          (case re_search DAY_OF_MONTH_SCHEDULE_MATCH v of
             Inl e \<Rightarrow> Inl e
           | Inr matched \<Rightarrow>
               if matched
               then (case v of
                       JStr s \<Rightarrow>
                         (case check_month_parameter s of
                            Inl e \<Rightarrow> Inl e
                          | Inr m \<Rightarrow>
                              Inr (t\<lparr>cost_month := Some m,
                                     start_schedule_task := (start_schedule_task t \<or> True)\<rparr>))
                     | _ \<Rightarrow> Inl TypeError)
               else Inr t))"

text \<open>
  \<^verbatim>\<open>
  if "cost_calc_year" in settings:
      if re.search(DATE_OF_YEAR_SCHEDULE_MATCH, settings["cost_calc_year"]) is not None:
          start_schedule_task["cost_year"] = check_year_parameter(settings["cost_calc_year"])
          start_schedule_task["start_schedule_task"] |= True
  \<close>
\<close>

definition requested_year :: "(string \<rightharpoonup> json) \<Rightarrow> schedule \<Rightarrow> exc + schedule" where
  "requested_year settings t =
     (case settings ''cost_calc_year'' of
        None \<Rightarrow> Inr t
      | Some v \<Rightarrow>
          (case re_search DATE_OF_YEAR_SCHEDULE_MATCH v of
             Inl e \<Rightarrow> Inl e
           | Inr matched \<Rightarrow>
               if matched
               then (case v of
                       JStr s \<Rightarrow>
                         (case check_year_parameter s of
                            Inl e \<Rightarrow> Inl e
                          | Inr ym \<Rightarrow>
                              Inr (t\<lparr>cost_year := Some ym,
                                     start_schedule_task := (start_schedule_task t \<or> True)\<rparr>))
                     | _ \<Rightarrow> Inl TypeError)
               else Inr t))"

text \<open>
  \<^verbatim>\<open>check_cost_calc_requested(settings)\<close>: the initial dict, then the three blocks above
  in the order of the source.
\<close>

definition check_cost_calc_requested :: "(string \<rightharpoonup> json) \<Rightarrow> exc + schedule" where
  "check_cost_calc_requested settings =
     (let t0 = \<lparr>start_schedule_task = False, cost_day = False, cost_month = None,
                cost_year = None\<rparr>
      in case requested_month settings (requested_day settings t0) of
           Inl e \<Rightarrow> Inl e
         | Inr t \<Rightarrow> requested_year settings t)"

section \<open>Process state and collaborators\<close>

text \<open>
  The keys with which the module-level dict \<^verbatim>\<open>configuration_failed_message_send\<close> is
  built and read: a string, or an exception class.
\<close>

datatype exc_class = FileNotFoundError_class | ValueError_class

datatype flag_key = StrKey string | ClassKey exc_class

datatype log_entry = Warning_config_file_not_found | Warning_price_not_a_number

record cost_data =
  start_date :: string
  end_date :: string
  sum_of_energy :: rat
  total_cost :: rat
  cost_kwh :: rat
  error_rate_one :: rat
  error_rate_two :: rat

text \<open>
  What a call can change: the dict of warning flags, the log written by
  \<^verbatim>\<open>lh.write_log\<close>, the records handed to \<^verbatim>\<open>sf.cost_logging\<close>, and the number of times
  the clock has been read.
\<close>

record app_state =
  flags :: "flag_key \<rightharpoonup> bool"
  log :: "log_entry list"
  sink :: "(string \<times> cost_data) list"
  clock_reads :: nat

text \<open>
  \<^verbatim>\<open>configuration_failed_message_send = {"FileNotFoundError": False, "ValueError": False}\<close>
\<close>

definition configuration_failed_message_send :: "flag_key \<rightharpoonup> bool" where
  "configuration_failed_message_send =
     [StrKey ''FileNotFoundError'' \<mapsto> False, StrKey ''ValueError'' \<mapsto> False]"

definition initial_state :: app_state where
  "initial_state =
     \<lparr>flags = configuration_failed_message_send, log = [], sink = [], clock_reads = 0\<rparr>"

text \<open>
  Modelled from the spec: \<^verbatim>\<open>lh.write_log(lh.LoggingLevel.WARNING.value, message)\<close> of
  \<^verbatim>\<open>source/logging_helper.py\<close>, which is not among the sources; it appends one warning to
  the log.
\<close>

definition write_log :: "log_entry \<Rightarrow> app_state \<Rightarrow> app_state" where
  "write_log entry st = st\<lparr>log := log st @ [entry]\<rparr>"

text \<open>
  Modelled from the spec: \<^verbatim>\<open>sf.cost_logging(key, data)\<close> of
  \<^verbatim>\<open>source/support_functions.py\<close>, which is not among the sources; the sink records one
  aggregated record under the key.
\<close>

definition cost_logging :: "string \<Rightarrow> cost_data \<Rightarrow> app_state \<Rightarrow> app_state" where
  "cost_logging key data st = st\<lparr>sink := sink st @ [(key, data)]\<rparr>"

text \<open>
  The configuration file at \<^verbatim>\<open>CONFIGURATION_FILE_PATH\<close>, as \<^verbatim>\<open>open\<close> and
  \<^verbatim>\<open>json.load\<close> find it: absent, not JSON, or a JSON value.
\<close>

datatype config_file = FileNotFound | InvalidJson | Loaded json

text \<open>\<^verbatim>\<open>key in data\<close> and \<^verbatim>\<open>data[key]\<close> for a string key.\<close>

fun is_substring :: "string \<Rightarrow> string \<Rightarrow> bool" where
  "is_substring p [] = (p = [])"
| "is_substring p (c # cs) = (take (length p) (c # cs) = p \<or> is_substring p cs)"

fun py_contains :: "string \<Rightarrow> json \<Rightarrow> exc + bool" where
  "py_contains key (JObj kvs) = Inr (key \<in> set (map fst kvs))"
| "py_contains key (JArr xs) = Inr (JStr key \<in> set xs)"
| "py_contains key (JStr s) = Inr (is_substring key s)"
| "py_contains key v = Inl TypeError"

fun py_getitem :: "json \<Rightarrow> string \<Rightarrow> exc + json" where
  "py_getitem (JObj kvs) key = (case map_of kvs key of None \<Rightarrow> Inl KeyError | Some v \<Rightarrow> Inr v)"
| "py_getitem v key = Inl TypeError"

text \<open>
  \<^verbatim>\<open>("general" in data) and (key in data["general"])\<close>, then \<^verbatim>\<open>data["general"][key]\<close>:
  \<open>None\<close> when the condition is false.
\<close>

definition general_entry :: "json \<Rightarrow> string \<Rightarrow> exc + json option" where
  "general_entry data key =
     (case py_contains ''general'' data of
        Inl e \<Rightarrow> Inl e
      | Inr has_general \<Rightarrow>
          if \<not> has_general then Inr None
          else (case py_getitem data ''general'' of
                  Inl e \<Rightarrow> Inl e
                | Inr general \<Rightarrow>
                    (case py_contains key general of
                       Inl e \<Rightarrow> Inl e
                     | Inr has_key \<Rightarrow>
                         if \<not> has_key then Inr None
                         else (case py_getitem general key of
                                 Inl e \<Rightarrow> Inl e
                               | Inr v \<Rightarrow> Inr (Some v)))))"

section \<open>ConfigProvider\<close>

text \<open>
  The two \<^verbatim>\<open>except\<close> blocks, which both functions share word for word:
  \<^verbatim>\<open>
  if not configuration_failed_message_send[FileNotFoundError]:
      lh.write_log(lh.LoggingLevel.WARNING.value, error_message)
      configuration_failed_message_send[FileNotFoundError] = True
  return default
  \<close>
  The dict is read with the exception class as the key; a key that the dict does not hold
  raises \<open>KeyError\<close> out of the handler.
\<close>

definition warn_once ::
  "exc_class \<Rightarrow> log_entry \<Rightarrow> 'a \<Rightarrow> app_state \<Rightarrow> (exc + 'a) \<times> app_state" where
  "warn_once cls entry default_value st =
     (case flags st (ClassKey cls) of
        None \<Rightarrow> (Inl KeyError, st)
      | Some sent \<Rightarrow>
          if \<not> sent
          then (Inr default_value,
                (write_log entry st)\<lparr>flags := (flags st)(ClassKey cls \<mapsto> True)\<rparr>)
          else (Inr default_value, st))"

text \<open>
  \<^verbatim>\<open>
  def check_cost_calc_request_time() -> str:
      try:
          checked_requested_start_time = "00:00"
          with open(CONFIGURATION_FILE_PATH, encoding="utf-8") as file:
              data = json.load(file)
              if ("general" in data) and ("cost_calc_request_time" in data["general"]):
                  requested_start_time = data["general"]["cost_calc_request_time"]
                  if re.search(TIME_OF_DAY_SCHEDULE_MATCH, requested_start_time) is not None:
                      checked_requested_start_time = requested_start_time
          return checked_requested_start_time
      except FileNotFoundError as err:
          ...
          return checked_requested_start_time
  \<close>
  Only \<open>FileNotFoundError\<close> is caught here.
\<close>

definition request_time_of :: "json \<Rightarrow> exc + string" where
  "request_time_of data =
     (case general_entry data ''cost_calc_request_time'' of
        Inl e \<Rightarrow> Inl e
      | Inr None \<Rightarrow> Inr ''00:00''
      | Inr (Some requested_start_time) \<Rightarrow>
          (case re_search TIME_OF_DAY_SCHEDULE_MATCH requested_start_time of
             Inl e \<Rightarrow> Inl e
           | Inr matched \<Rightarrow>
               (case requested_start_time of
                  JStr s \<Rightarrow> Inr (if matched then s else ''00:00'')
                | _ \<Rightarrow> Inl TypeError)))"

definition check_cost_calc_request_time ::
  "config_file \<Rightarrow> app_state \<Rightarrow> (exc + string) \<times> app_state" where
  "check_cost_calc_request_time file st =
     (case file of
        FileNotFound \<Rightarrow>
          warn_once FileNotFoundError_class Warning_config_file_not_found ''00:00'' st
      | InvalidJson \<Rightarrow> (Inl ValueError, st)
      | Loaded data \<Rightarrow> (request_time_of data, st))"

text \<open>
  \<^verbatim>\<open>
  def check_cost_config() -> float:
      default_price = 0.3
      try:
          with open(CONFIGURATION_FILE_PATH, encoding="utf-8") as file:
              data = json.load(file)
              if ("general" in data) and ("price_kwh" in data["general"]):
                  requested_kwh_price = data["general"]["price_kwh"]
                  if not isinstance(requested_kwh_price, float):
                      requested_kwh_price = requested_kwh_price.replace(",", ".")
                  checked_requested_kwh_price = round(float(requested_kwh_price), 3)
          return checked_requested_kwh_price
      except FileNotFoundError as err:
          ...
          return default_price
      except ValueError as err:
          ...
          return default_price
  \<close>
  \<open>float_of_str\<close> is Python's \<^verbatim>\<open>float\<close> on a string, with \<open>None\<close> where it raises
  \<open>ValueError\<close>. Only a string has \<^verbatim>\<open>replace\<close>; the name
  \<^verbatim>\<open>checked_requested_kwh_price\<close> is unbound when the file has no price.
\<close>

definition default_price :: rat where
  "default_price = 3 / 10"

definition replace_comma :: "string \<Rightarrow> string" where
  "replace_comma s = map (\<lambda>c. if c = CHR '','' then CHR ''.'' else c) s"

definition price_of :: "(string \<Rightarrow> rat option) \<Rightarrow> json \<Rightarrow> exc + rat" where
  "price_of float_of_str data =
     (case general_entry data ''price_kwh'' of
        Inl e \<Rightarrow> Inl e
      | Inr None \<Rightarrow> Inl UnboundLocalError
      | Inr (Some requested_kwh_price) \<Rightarrow>
          (case requested_kwh_price of
             JFloat q \<Rightarrow> Inr (py_round q 3)
           | JStr s \<Rightarrow>
               (case float_of_str (replace_comma s) of
                  None \<Rightarrow> Inl ValueError
                | Some q \<Rightarrow> Inr (py_round q 3))
           | _ \<Rightarrow> Inl AttributeError))"

definition check_cost_config ::
  "config_file \<Rightarrow> (string \<Rightarrow> rat option) \<Rightarrow> app_state \<Rightarrow> (exc + rat) \<times> app_state" where
  "check_cost_config file float_of_str st =
     (case file of
        FileNotFound \<Rightarrow>
          warn_once FileNotFoundError_class Warning_config_file_not_found default_price st
      | InvalidJson \<Rightarrow> warn_once ValueError_class Warning_price_not_a_number default_price st
      | Loaded data \<Rightarrow>
          (case price_of float_of_str data of
             Inl e \<Rightarrow>
               if e = ValueError
               then warn_once ValueError_class Warning_price_not_a_number default_price st
               else (Inl e, st)
           | Inr price \<Rightarrow> (Inr price, st)))"

section \<open>Windows: \<^verbatim>\<open>relativedelta\<close>, \<^verbatim>\<open>strftime\<close> and \<^verbatim>\<open>total_seconds\<close>\<close>

text \<open>
  \<^verbatim>\<open>dateutil.relativedelta.relativedelta\<close> with its relative fields \<open>years\<close>, \<open>months\<close>
  and \<open>days\<close>, the only ones the program sets.
\<close>

record relativedelta =
  years :: int
  months :: int
  days :: int

definition rd_neg :: "relativedelta \<Rightarrow> relativedelta" where
  "rd_neg rd = \<lparr>years = - years rd, months = - months rd, days = - days rd\<rparr>"

text \<open>
  \<^verbatim>\<open>relativedelta.__add__(self, dt)\<close>: the year and the month are shifted first, the day
  is cut down to the length of the month reached
  (\<^verbatim>\<open>min(calendar.monthrange(year, month)[1], dt.day)\<close>), and the days are added last, as
  a \<^verbatim>\<open>timedelta\<close>.
\<close>

definition rd_add :: "datetime \<Rightarrow> relativedelta \<Rightarrow> exc + datetime" where
  "rd_add dt rd =
     (if months rd \<noteq> 0 \<and> \<not> (1 \<le> \<bar>months rd\<bar> \<and> \<bar>months rd\<bar> \<le> 12) then Inl AssertionError
      else
        let y0 = year dt + years rd;
            m0 = month dt + months rd;
            y = (if months rd \<noteq> 0 \<and> m0 > 12 then y0 + 1
                 else if months rd \<noteq> 0 \<and> m0 < 1 then y0 - 1 else y0);
            m = (if months rd \<noteq> 0 \<and> m0 > 12 then m0 - 12
                 else if months rd \<noteq> 0 \<and> m0 < 1 then m0 + 12 else m0);
            d = min (days_in_month y m) (day dt)
        in case replace_date dt y m d of
             Inl e \<Rightarrow> Inl e
           | Inr r \<Rightarrow> add_days r (days rd))"

text \<open>\<^verbatim>\<open>dt - rd\<close>, which is \<^verbatim>\<open>rd.__rsub__(dt) = rd.__neg__().__radd__(dt)\<close>.\<close>

definition rd_sub :: "datetime \<Rightarrow> relativedelta \<Rightarrow> exc + datetime" where
  "rd_sub dt rd = rd_add dt (rd_neg rd)"

text \<open>
  \<^verbatim>\<open>dt.strftime("%Y-%m-%d %H:%M:%S")\<close>, the year written with four digits (as the
  C library does from the year 1000 on).
\<close>

definition digit_char :: "int \<Rightarrow> char" where
  "digit_char n = ''0123456789'' ! nat n"

definition pad2 :: "int \<Rightarrow> string" where
  "pad2 n = [digit_char (n div 10 mod 10), digit_char (n mod 10)]"

definition pad4 :: "int \<Rightarrow> string" where
  "pad4 n = pad2 (n div 100) @ pad2 n"

definition strftime :: "datetime \<Rightarrow> string" where
  "strftime dt =
     pad4 (year dt) @ ''-'' @ pad2 (month dt) @ ''-'' @ pad2 (day dt) @ '' ''
     @ pad2 (hour dt) @ '':'' @ pad2 (minute dt) @ '':'' @ pad2 (second dt)"

text \<open>
  \<^verbatim>\<open>(end - start).total_seconds()\<close>: the difference of the ordinals of the two dates
  (\<^verbatim>\<open>_ymd2ord\<close>) in days, plus the difference of the times of day.
\<close>

definition days_before_year :: "int \<Rightarrow> int" where
  "days_before_year y = (y - 1) * 365 + (y - 1) div 4 - (y - 1) div 100 + (y - 1) div 400"

definition days_before_month :: "int \<Rightarrow> int \<Rightarrow> int" where
  "days_before_month y m =
     [0, 31, 59, 90, 120, 151, 181, 212, 243, 273, 304, 334] ! nat (m - 1)
     + (if m > 2 \<and> is_leap y then 1 else 0)"

definition toordinal :: "datetime \<Rightarrow> int" where
  "toordinal dt = days_before_year (year dt) + days_before_month (year dt) (month dt) + day dt"

definition total_seconds :: "datetime \<Rightarrow> datetime \<Rightarrow> rat" where
  "total_seconds e s =
     of_int ((toordinal e - toordinal s) * 86400
             + (hour e - hour s) * 3600 + (minute e - minute s) * 60 + (second e - second s))
     + of_int (microsecond e - microsecond s) / 1000000"

section \<open>CostAggregator\<close>

text \<open>One point of \<^verbatim>\<open>result.get_points()\<close>.\<close>

record measurement =
  energy_wh :: rat
  fetch_success :: bool

text \<open>
  What the program reads from outside: the measurement store behind
  \<^verbatim>\<open>sf.fetch_measurements\<close> (device, \<^verbatim>\<open>target_date\<close>, \<^verbatim>\<open>current_date\<close>), the
  configuration file, \<^verbatim>\<open>float\<close> on strings, and the clock: \<open>utcnow k\<close> is what the
  \<open>k\<close>-th call of \<^verbatim>\<open>datetime.utcnow()\<close> returns.
\<close>

record env =
  fetch_measurements :: "string \<Rightarrow> string \<Rightarrow> string \<Rightarrow> measurement list"
  config :: config_file
  float_of_str :: "string \<Rightarrow> rat option"
  utcnow :: "nat \<Rightarrow> datetime"

text \<open>
  The dict \<^verbatim>\<open>data\<close> of \<^verbatim>\<open>cost_calc\<close>, its values evaluated in the order written:
  \<^verbatim>\<open>
  data = {
      "start_date": start_date_format,
      "end_date": end_date_format,
      "sum_of_energy": sum_of_energy_in_kwh,
      "total_cost": sum_of_energy_in_kwh * cost_kwh,
      "cost_kwh": cost_kwh,
      "error_rate_one": len(failed_measurements) * 100
          / (len(success_measurements) + len(failed_measurements)),
      "error_rate_two": (max_values - len(success_measurements)) * 100 / max_values,
  }
  \<close>
\<close>

definition build_data ::
  "string \<Rightarrow> string \<Rightarrow> rat \<Rightarrow> rat \<Rightarrow> nat \<Rightarrow> nat \<Rightarrow> rat \<Rightarrow> exc + cost_data" where
  "build_data start_date_format end_date_format sum_of_energy_in_kwh price n_success n_failed
     max_values =
     (case py_truediv (of_nat n_failed * 100) (of_nat (n_success + n_failed)) of
        Inl e \<Rightarrow> Inl e
      | Inr rate_one \<Rightarrow>
          (case py_truediv ((max_values - of_nat n_success) * 100) max_values of
             Inl e \<Rightarrow> Inl e
           | Inr rate_two \<Rightarrow>
               Inr \<lparr>start_date = start_date_format,
                    end_date = end_date_format,
                    sum_of_energy = sum_of_energy_in_kwh,
                    total_cost = sum_of_energy_in_kwh * price,
                    cost_kwh = price,
                    error_rate_one = rate_one,
                    error_rate_two = rate_two\<rparr>))"

text \<open>
  \<^verbatim>\<open>
  if time_difference.days == 1:
      sf.cost_logging(device_name + "_day", data)
  elif time_difference.months == 1:
      sf.cost_logging(device_name + "_month", data)
  elif time_difference.years == 1:
      sf.cost_logging(device_name + "_year", data)
  \<close>
\<close>

definition route :: "string \<Rightarrow> relativedelta \<Rightarrow> cost_data \<Rightarrow> app_state \<Rightarrow> app_state" where
  "route device_name time_difference data st =
     (if days time_difference = 1 then cost_logging (device_name @ ''_day'') data st
      else if months time_difference = 1 then cost_logging (device_name @ ''_month'') data st
      else if years time_difference = 1 then cost_logging (device_name @ ''_year'') data st
      else st)"

text \<open>
  \<^verbatim>\<open>
  def cost_calc(device_name, settings, current_timestamp, time_difference) -> None:
      start_date = current_timestamp - time_difference
      start_date_format = start_date.strftime("%Y-%m-%d %H:%M:%S")
      end_date = current_timestamp
      end_date_format = end_date.strftime("%Y-%m-%d %H:%M:%S")
      result = sf.fetch_measurements({"device": device_name,
          "target_date": start_date_format, "current_date": end_date_format})
      success_measurements = list(filter(
          lambda measurement: measurement["fetch_success"] is True, result.get_points()))
      failed_measurements = list(filter(
          lambda measurement: measurement["fetch_success"] is False, result.get_points()))
      sum_of_energy_in_kwh = round(
          (sum(element["energy_wh"] for element in success_measurements) / 1000), 2)
      cost_kwh = check_cost_config()
      if (len(success_measurements) + len(failed_measurements)) == 0:
          return
      max_values = ((end_date - start_date).total_seconds()) / settings["update_time"]
      data = {...}
      if time_difference.days == 1: ...
  \<close>
\<close>

definition cost_calc ::
  "env \<Rightarrow> string \<Rightarrow> (string \<rightharpoonup> json) \<Rightarrow> datetime \<Rightarrow> relativedelta \<Rightarrow> app_state
     \<Rightarrow> (exc + unit) \<times> app_state" where
  "cost_calc ev device_name settings current_timestamp time_difference st =
     (case rd_sub current_timestamp time_difference of
        Inl e \<Rightarrow> (Inl e, st)
      | Inr start_ts \<Rightarrow>
          let start_date_format = strftime start_ts;
              end_ts = current_timestamp;
              end_date_format = strftime end_ts;
              result = fetch_measurements ev device_name start_date_format end_date_format;
              success_measurements = filter (\<lambda>m. fetch_success m) result;
              failed_measurements = filter (\<lambda>m. \<not> fetch_success m) result;
              sum_of_energy_in_kwh =
                py_round (sum_list (map energy_wh success_measurements) / 1000) 2
          in case check_cost_config (config ev) (float_of_str ev) st of
               (Inl e, st1) \<Rightarrow> (Inl e, st1)
             | (Inr price, st1) \<Rightarrow>
                 if length success_measurements + length failed_measurements = 0
                 then (Inr (), st1)
                 else
                   (case settings ''update_time'' of
                      None \<Rightarrow> (Inl KeyError, st1)
                    | Some u \<Rightarrow>
                        (case py_number u of
                           Inl e \<Rightarrow> (Inl e, st1)
                         | Inr update_time \<Rightarrow>
                             (case py_truediv (total_seconds end_ts start_ts) update_time of
                                Inl e \<Rightarrow> (Inl e, st1)
                              | Inr max_values \<Rightarrow>
                                  (case build_data start_date_format end_date_format
                                          sum_of_energy_in_kwh price
                                          (length success_measurements)
                                          (length failed_measurements) max_values of
                                     Inl e \<Rightarrow> (Inl e, st1)
                                   | Inr data \<Rightarrow>
                                       (Inr (),
                                        route device_name time_difference data st1))))))"

section \<open>DispatchHandler\<close>







section \<open>Scenario inputs\<close>

text \<open>
  The inputs of the scenarios of the specification, on which the properties below are
  evaluated: ten fetched points, eight with 1000 Wh each and two failed; a configuration
  file with the price 0.30; a device that reports every 60 seconds; and a clock that
  stands at 2024-03-31 10:00:00.
\<close>

definition scenario_now :: datetime where
  "scenario_now =
     \<lparr>year = 2024, month = 3, day = 31, hour = 10, minute = 0, second = 0, microsecond = 0\<rparr>"

definition succeeded :: measurement where
  "succeeded = \<lparr>energy_wh = 1000, fetch_success = True\<rparr>"

definition failed :: measurement where
  "failed = \<lparr>energy_wh = 0, fetch_success = False\<rparr>"

definition scenario_measurements :: "measurement list" where
  "scenario_measurements =
     [succeeded, succeeded, succeeded, succeeded, failed, succeeded, succeeded, succeeded,
      succeeded, failed]"

definition scenario_store :: "string \<Rightarrow> string \<Rightarrow> string \<Rightarrow> measurement list" where
  "scenario_store device target_date current_date = scenario_measurements"


definition scenario_config :: config_file where
  "scenario_config = Loaded (JObj [(''general'', JObj [(''price_kwh'', JFloat (3 / 10))])])"

definition scenario_float :: "string \<Rightarrow> rat option" where
  "scenario_float s = (if s = ''0.30'' then Some (3 / 10) else None)"

definition scenario_clock :: "nat \<Rightarrow> datetime" where
  "scenario_clock k = scenario_now"

definition scenario_env :: env where
  "scenario_env =
     \<lparr>fetch_measurements = scenario_store, config = scenario_config,
      float_of_str = scenario_float, utcnow = scenario_clock\<rparr>"

definition scenario_settings :: "string \<rightharpoonup> json" where
  "scenario_settings = [''update_time'' \<mapsto> JInt 60]"

section \<open>Properties of the DateMatcher\<close>

lemma days_in_month_range: "days_in_month y m \<in> {28, 29, 30, 31}"
  by (simp add: days_in_month_def)

lemma last_day_of_month_valid:
  assumes "valid_datetime d"
  shows "last_day_of_month d = Inr (d\<lparr>day := days_in_month (year d) (month d)\<rparr>)"
proof (cases "month d = 12")
  case True
  with assms show ?thesis
    by (simp add: last_day_of_month_def replace_date_def valid_datetime_def valid_date_def
        days_in_month_def)
next
  case False
  with assms have m: "1 \<le> month d" "month d \<le> 11" and y: "1 \<le> year d" "year d \<le> 9999"
    by (simp_all add: valid_datetime_def valid_date_def)
  have v: "valid_date (year d) (month d + 1) 1"
    using m y by (simp add: valid_date_def days_in_month_def)
  show ?thesis
    using m False
    by (simp add: last_day_of_month_def replace_date_def v add_days_def prev_day_def)
qed

text \<open>
  C8: for every valid date, \<open>last_day_of_month\<close> returns the same timestamp with only the
  day changed, to the last calendar day of that year's month; that day is 28, 29, 30 or 31,
  it is 29 in February of a leap year and 28 in February of any other year, and it is the
  last day that exists in the month.
\<close>

theorem last_day_of_month_correct:
  assumes "valid_datetime d"
  shows "\<exists>r. last_day_of_month d = Inr r
           \<and> year r = year d \<and> month r = month d
           \<and> day r = days_in_month (year d) (month d)
           \<and> day r \<in> {28, 29, 30, 31}
           \<and> (month d = 2 \<longrightarrow> day r = (if is_leap (year d) then 29 else 28))
           \<and> valid_datetime r
           \<and> \<not> valid_date (year d) (month d) (day r + 1)"
proof -
  let ?r = "d\<lparr>day := days_in_month (year d) (month d)\<rparr>"
  have "last_day_of_month d = Inr ?r"
    by (rule last_day_of_month_valid [OF assms])
  moreover have "day ?r \<in> {28, 29, 30, 31}"
    using days_in_month_range [of "year d" "month d"] by simp
  moreover have "month d = 2 \<longrightarrow> day ?r = (if is_leap (year d) then 29 else 28)"
    by (simp add: days_in_month_def)
  moreover have "valid_datetime ?r"
    using assms days_in_month_range [of "year d" "month d"]
    by (auto simp add: valid_datetime_def valid_date_def)
  moreover have "\<not> valid_date (year d) (month d) (day ?r + 1)"
    by (simp add: valid_date_def)
  ultimately show ?thesis by simp
qed

theorem last_day_of_month_correct_witness:
  "valid_datetime \<lparr>year = 2024, month = 2, day = 10, hour = 10, minute = 0, second = 0,
                   microsecond = 0\<rparr>
   \<and> (\<exists>r. last_day_of_month \<lparr>year = 2024, month = 2, day = 10, hour = 10, minute = 0,
                                  second = 0, microsecond = 0\<rparr> = Inr r
            \<and> year r = 2024 \<and> month r = 2 \<and> day r = 29)"
proof -
  let ?d = "\<lparr>year = 2024, month = 2, day = 10, hour = 10, minute = 0, second = 0,
             microsecond = 0\<rparr>"
  have v: "valid_datetime ?d"
    by (simp add: valid_datetime_def valid_date_def days_in_month_def is_leap_def)
  show ?thesis
    using v last_day_of_month_correct [OF v]
    by (auto simp add: days_in_month_def is_leap_def)
qed

text \<open>
  C4: for every valid date \<open>now\<close> and every \<open>target_day\<close>, \<open>check_matched_day\<close> returns
  true iff the target exceeds the last day of the month of \<open>now\<close> and \<open>now\<close> is that last
  day, or the target does not exceed it and is the day of \<open>now\<close>; so the target 31 matches
  exactly on the last day of every month, whatever its length.
\<close>

theorem check_matched_day_correct:
  assumes "valid_datetime now"
  shows "check_matched_day now target_day
           = Inr ((days_in_month (year now) (month now) < target_day
                     \<and> day now = days_in_month (year now) (month now))
                  \<or> (target_day \<le> days_in_month (year now) (month now)
                     \<and> day now = target_day))
         \<and> check_matched_day now 31
           = Inr (day now = days_in_month (year now) (month now))"
proof -
  have l: "last_day_of_month now = Inr (now\<lparr>day := days_in_month (year now) (month now)\<rparr>)"
    by (rule last_day_of_month_valid [OF assms])
  have r: "days_in_month (year now) (month now) \<le> 31"
    using days_in_month_range [of "year now" "month now"] by auto
  have "check_matched_day now target_day
           = Inr ((days_in_month (year now) (month now) < target_day
                     \<and> day now = days_in_month (year now) (month now))
                  \<or> (target_day \<le> days_in_month (year now) (month now)
                     \<and> day now = target_day))"
    by (auto simp add: check_matched_day_def l)
  moreover have "check_matched_day now 31
           = Inr (day now = days_in_month (year now) (month now))"
    using r by (auto simp add: check_matched_day_def l)
  ultimately show ?thesis by simp
qed

theorem check_matched_day_correct_witness:
  "valid_datetime \<lparr>year = 2023, month = 2, day = 28, hour = 0, minute = 0, second = 0,
                   microsecond = 0\<rparr>
   \<and> check_matched_day \<lparr>year = 2023, month = 2, day = 28, hour = 0, minute = 0, second = 0,
                        microsecond = 0\<rparr> 31 = Inr True
   \<and> valid_datetime \<lparr>year = 2024, month = 2, day = 29, hour = 10, minute = 0, second = 0,
                     microsecond = 0\<rparr>
   \<and> check_matched_day \<lparr>year = 2024, month = 2, day = 29, hour = 10, minute = 0, second = 0,
                        microsecond = 0\<rparr> 31 = Inr True
   \<and> valid_datetime \<lparr>year = 2023, month = 3, day = 15, hour = 0, minute = 0, second = 0,
                     microsecond = 0\<rparr>
   \<and> check_matched_day \<lparr>year = 2023, month = 3, day = 15, hour = 0, minute = 0, second = 0,
                        microsecond = 0\<rparr> 31 = Inr False"
proof -
  let ?a = "\<lparr>year = 2023, month = 2, day = 28, hour = 0, minute = 0, second = 0,
             microsecond = 0\<rparr>"
  let ?b = "\<lparr>year = 2024, month = 2, day = 29, hour = 10, minute = 0, second = 0,
             microsecond = 0\<rparr>"
  let ?c = "\<lparr>year = 2023, month = 3, day = 15, hour = 0, minute = 0, second = 0,
             microsecond = 0\<rparr>"
  have va: "valid_datetime ?a" and vb: "valid_datetime ?b" and vc: "valid_datetime ?c"
    by (simp_all add: valid_datetime_def valid_date_def days_in_month_def is_leap_def)
  show ?thesis
    using va vb vc
      check_matched_day_correct [OF va, of 31]
      check_matched_day_correct [OF vb, of 31]
      check_matched_day_correct [OF vc, of 31]
    by (simp add: days_in_month_def is_leap_def)
qed

section \<open>Properties of the ScheduleResolver\<close>

text \<open>
  C1: the monthly target day is checked by \<open>check_month_parameter\<close>, whose range is 1..12,
  so the two-digit setting \<open>31\<close> resolves to the target day 1 (with the cadence enabled),
  where \<open>check_day_parameter\<close>, the check of the yearly day, keeps 31.
\<close>

theorem check_cost_calc_requested_month_31:
  "check_cost_calc_requested [''cost_calc_month'' \<mapsto> JStr ''31'']
     = Inr \<lparr>start_schedule_task = True, cost_day = False, cost_month = Some 1,
            cost_year = None\<rparr>
   \<and> check_day_parameter ''31'' = Inr 31"
  by code_simp

lemma digit_not_space: "is_digit c \<Longrightarrow> \<not> is_space c"
  by (auto simp add: is_digit_def is_space_def)

lemma digit_not_mark:
  "is_digit c \<Longrightarrow> c \<noteq> CHR ''-'' \<and> c \<noteq> CHR ''+'' \<and> c \<noteq> CHR ''_'' \<and> c \<noteq> CHR ''.''
     \<and> c \<noteq> CHR 0x0A"
  by (auto simp add: is_digit_def)

lemma space_newline: "is_space (CHR 0x0A)"
  by (simp add: is_space_def)

lemma py_int_two_digits:
  assumes "is_digit a" "is_digit b"
  shows "py_int [a, b] = Inr (10 * digit_val a + digit_val b)"
    and "py_int [a, b, CHR 0x0A] = Inr (10 * digit_val a + digit_val b)"
  using assms digit_not_space [OF assms(1)] digit_not_space [OF assms(2)]
    digit_not_mark [OF assms(1)] digit_not_mark [OF assms(2)]
  by (simp_all add: py_int_def strip_def decimal_value_def space_newline)

lemma two_digits_cases:
  "two_digits t \<Longrightarrow> \<exists>a b. t = [a, b] \<and> is_digit a \<and> is_digit b"
  by (auto simp add: two_digits_def split: list.splits)

lemma day_dot_month_cases:
  "day_dot_month t \<Longrightarrow>
     \<exists>a b c d. t = [a, b, CHR ''.'', c, d] \<and> is_digit a \<and> is_digit b \<and> is_digit c \<and> is_digit d"
  by (auto simp add: day_dot_month_def split: list.splits)

lemma dollar_variants_cases:
  assumes "list_ex P (dollar_variants s)"
  shows "\<exists>t. P t \<and> (s = t \<or> s = t @ [CHR 0x0A])"
proof (cases "P s")
  case True
  then show ?thesis by blast
next
  case False
  with assms have "s \<noteq> []" "last s = CHR 0x0A" "P (butlast s)"
    by (auto simp add: dollar_variants_def split: if_splits)
  moreover from this have "s = butlast s @ [CHR 0x0A]"
    using append_butlast_last_id [of s] by simp
  ultimately show ?thesis by blast
qed

lemma check_month_parameter_matched:
  assumes "DAY_OF_MONTH_SCHEDULE_MATCH s"
  shows "\<exists>m. check_month_parameter s = Inr m"
proof -
  from assms obtain t where t: "two_digits t" "s = t \<or> s = t @ [CHR 0x0A]"
    using dollar_variants_cases [of two_digits s]
    by (auto simp add: DAY_OF_MONTH_SCHEDULE_MATCH_def)
  from two_digits_cases [OF t(1)] obtain a b where
    ab: "t = [a, b]" "is_digit a" "is_digit b" by blast
  from t(2) ab(1) have "s = [a, b] \<or> s = [a, b, CHR 0x0A]" by simp
  then show ?thesis
    using py_int_two_digits [OF ab(2) ab(3)]
    by (auto simp add: check_month_parameter_def)
qed

lemma py_split_day_month:
  assumes "is_digit a" "is_digit b" "is_digit c" "is_digit d"
  shows "py_split CHR ''.'' ([a, b, CHR ''.'', c, d] @ rest)
           = (case py_split CHR ''.'' rest of [] \<Rightarrow> [[a, b], [c, d]]
              | p # ps \<Rightarrow> [a, b] # (c # d # p) # ps)"
  using digit_not_mark [OF assms(1)] digit_not_mark [OF assms(2)]
    digit_not_mark [OF assms(3)] digit_not_mark [OF assms(4)]
  by (simp split: list.splits)

lemma check_year_parameter_matched:
  assumes "DATE_OF_YEAR_SCHEDULE_MATCH s"
  shows "\<exists>v. check_year_parameter s = Inr v"
proof -
  from assms obtain t where t: "day_dot_month t" "s = t \<or> s = t @ [CHR 0x0A]"
    using dollar_variants_cases [of day_dot_month s]
    by (auto simp add: DATE_OF_YEAR_SCHEDULE_MATCH_def)
  from day_dot_month_cases [OF t(1)] obtain a b c d where
    ab: "t = [a, b, CHR ''.'', c, d]" "is_digit a" "is_digit b" "is_digit c" "is_digit d"
    by blast
  from t(2) ab(1) have "s = [a, b, CHR ''.'', c, d] @ [] \<or> s = [a, b, CHR ''.'', c, d] @ [CHR 0x0A]"
    by simp
  then show ?thesis
  proof
    assume "s = [a, b, CHR ''.'', c, d] @ []"
    then show ?thesis
      using py_split_day_month [OF ab(2-5), of "[]"]
        py_int_two_digits(1) [OF ab(2) ab(3)] py_int_two_digits(1) [OF ab(4) ab(5)]
      by (simp add: check_year_parameter_def py_index_def check_month_parameter_def
          check_day_parameter_def)
  next
    assume "s = [a, b, CHR ''.'', c, d] @ [CHR 0x0A]"
    then show ?thesis
      using py_split_day_month [OF ab(2-5), of "[CHR 0x0A]"]
        py_int_two_digits(1) [OF ab(2) ab(3)] py_int_two_digits(2) [OF ab(4) ab(5)]
      by (simp add: check_year_parameter_def py_index_def check_month_parameter_def
          check_day_parameter_def)
  qed
qed

lemma requested_day_fields:
  "cost_day (requested_day settings t)
     = (cost_day t \<or> (\<exists>v. settings ''cost_calc_day'' = Some v \<and> truthy v))"
  "start_schedule_task (requested_day settings t)
     = (start_schedule_task t \<or> (\<exists>v. settings ''cost_calc_day'' = Some v \<and> truthy v))"
  "cost_month (requested_day settings t) = cost_month t"
  "cost_year (requested_day settings t) = cost_year t"
  by (auto simp add: requested_day_def split: option.splits)

lemma requested_month_cases:
  "(\<exists>v. settings ''cost_calc_month'' = Some v \<and> (\<forall>s. v \<noteq> JStr s)
         \<and> requested_month settings t = Inl TypeError)
   \<or> (\<exists>s m. settings ''cost_calc_month'' = Some (JStr s) \<and> DAY_OF_MONTH_SCHEDULE_MATCH s
         \<and> requested_month settings t
             = Inr (t\<lparr>cost_month := Some m, start_schedule_task := True\<rparr>))
   \<or> (\<not> (\<exists>s. settings ''cost_calc_month'' = Some (JStr s) \<and> DAY_OF_MONTH_SCHEDULE_MATCH s)
         \<and> requested_month settings t = Inr t)"
proof (cases "settings ''cost_calc_month''")
  case None
  then show ?thesis by (simp add: requested_month_def)
next
  case (Some v)
  show ?thesis
  proof (cases v)
    case (JStr s)
    show ?thesis
    proof (cases "DAY_OF_MONTH_SCHEDULE_MATCH s")
      case True
      from check_month_parameter_matched [OF True] obtain m
        where "check_month_parameter s = Inr m" by blast
      with Some JStr True have
        "requested_month settings t
           = Inr (t\<lparr>cost_month := Some m, start_schedule_task := True\<rparr>)"
        by (simp add: requested_month_def)
      with Some JStr True show ?thesis by blast
    next
      case False
      with Some JStr show ?thesis by (simp add: requested_month_def)
    qed
  qed (use Some in \<open>simp_all add: requested_month_def\<close>)
qed

lemma requested_year_cases:
  "(\<exists>v. settings ''cost_calc_year'' = Some v \<and> (\<forall>s. v \<noteq> JStr s)
         \<and> requested_year settings t = Inl TypeError)
   \<or> (\<exists>s ym. settings ''cost_calc_year'' = Some (JStr s) \<and> DATE_OF_YEAR_SCHEDULE_MATCH s
         \<and> requested_year settings t
             = Inr (t\<lparr>cost_year := Some ym, start_schedule_task := True\<rparr>))
   \<or> (\<not> (\<exists>s. settings ''cost_calc_year'' = Some (JStr s) \<and> DATE_OF_YEAR_SCHEDULE_MATCH s)
         \<and> requested_year settings t = Inr t)"
proof (cases "settings ''cost_calc_year''")
  case None
  then show ?thesis by (simp add: requested_year_def)
next
  case (Some v)
  show ?thesis
  proof (cases v)
    case (JStr s)
    show ?thesis
    proof (cases "DATE_OF_YEAR_SCHEDULE_MATCH s")
      case True
      from check_year_parameter_matched [OF True] obtain ym
        where "check_year_parameter s = Inr ym" by blast
      with Some JStr True have
        "requested_year settings t
           = Inr (t\<lparr>cost_year := Some ym, start_schedule_task := True\<rparr>)"
        by (simp add: requested_year_def)
      with Some JStr True show ?thesis by blast
    next
      case False
      with Some JStr show ?thesis by (simp add: requested_year_def)
    qed
  qed (use Some in \<open>simp_all add: requested_year_def\<close>)
qed


text \<open>
  C10: for every settings mapping, the dict that \<open>check_cost_calc_requested\<close> returns has
  \<open>start_schedule_task\<close> true iff a cadence is active (\<open>cost_day\<close> true, \<open>cost_month\<close> or
  \<open>cost_year\<close> not \<open>None\<close>), and \<open>cost_month\<close> and \<open>cost_year\<close> are not \<open>None\<close> exactly
  when the setting is a string that its pattern matches. The function returns such a dict
  unless a monthly or yearly setting is not a string, which is a \<open>TypeError\<close> of
  \<^verbatim>\<open>re.search\<close>.
\<close>

theorem check_cost_calc_requested_invariant:
  "case check_cost_calc_requested settings of
     Inr t \<Rightarrow>
       (start_schedule_task t \<longleftrightarrow> cost_day t \<or> cost_month t \<noteq> None \<or> cost_year t \<noteq> None)
       \<and> (cost_month t \<noteq> None \<longleftrightarrow>
            (\<exists>s. settings ''cost_calc_month'' = Some (JStr s) \<and> DAY_OF_MONTH_SCHEDULE_MATCH s))
       \<and> (cost_year t \<noteq> None \<longleftrightarrow>
            (\<exists>s. settings ''cost_calc_year'' = Some (JStr s) \<and> DATE_OF_YEAR_SCHEDULE_MATCH s))
   | Inl e \<Rightarrow>
       e = TypeError
       \<and> (\<exists>v. (settings ''cost_calc_month'' = Some v \<or> settings ''cost_calc_year'' = Some v)
              \<and> (\<forall>s. v \<noteq> JStr s))"
proof -
  let ?t0 = "\<lparr>start_schedule_task = False, cost_day = False, cost_month = None,
              cost_year = None\<rparr>"
  let ?t1 = "requested_day settings ?t0"
  have t1: "start_schedule_task ?t1 = cost_day ?t1" "cost_month ?t1 = None"
    "cost_year ?t1 = None"
    by (simp_all add: requested_day_fields)
  have unfold: "check_cost_calc_requested settings
      = (case requested_month settings ?t1 of Inl e \<Rightarrow> Inl e
         | Inr t \<Rightarrow> requested_year settings t)"
    by (simp add: check_cost_calc_requested_def)
  from requested_month_cases [of settings ?t1] show ?thesis
  proof (elim disjE exE conjE)
    fix v
    assume "settings ''cost_calc_month'' = Some v" "\<forall>s. v \<noteq> JStr s"
      "requested_month settings ?t1 = Inl TypeError"
    then show ?thesis unfolding unfold by auto
  next
    fix s m
    assume m: "settings ''cost_calc_month'' = Some (JStr s)" "DAY_OF_MONTH_SCHEDULE_MATCH s"
      "requested_month settings ?t1
         = Inr (?t1\<lparr>cost_month := Some m, start_schedule_task := True\<rparr>)"
    let ?t2 = "?t1\<lparr>cost_month := Some m, start_schedule_task := True\<rparr>"
    from requested_year_cases [of settings ?t2] show ?thesis
      unfolding unfold using m t1 by (auto split: sum.splits)
  next
    assume m: "\<not> (\<exists>s. settings ''cost_calc_month'' = Some (JStr s)
                      \<and> DAY_OF_MONTH_SCHEDULE_MATCH s)"
      "requested_month settings ?t1 = Inr ?t1"
    from requested_year_cases [of settings ?t1] show ?thesis
      unfolding unfold using m t1 by (auto split: sum.splits)
  qed
qed

theorem check_cost_calc_requested_invariant_witness:
  "check_cost_calc_requested
     [''cost_calc_day'' \<mapsto> JBool False, ''cost_calc_month'' \<mapsto> JStr ''7'',
      ''cost_calc_year'' \<mapsto> JStr ''40.05'']
     = Inr \<lparr>start_schedule_task = True, cost_day = False, cost_month = None,
            cost_year = Some \<lparr>values_day = 1, values_month = 5\<rparr>\<rparr>
   \<and> \<not> DAY_OF_MONTH_SCHEDULE_MATCH ''7'' \<and> DATE_OF_YEAR_SCHEDULE_MATCH ''40.05''"
proof -
  let ?s = "[''cost_calc_day'' \<mapsto> JBool False, ''cost_calc_month'' \<mapsto> JStr ''7'',
             ''cost_calc_year'' \<mapsto> JStr ''40.05'']"
  have e: "check_cost_calc_requested ?s
     = Inr \<lparr>start_schedule_task = True, cost_day = False, cost_month = None,
            cost_year = Some \<lparr>values_day = 1, values_month = 5\<rparr>\<rparr>"
    by code_simp
  from check_cost_calc_requested_invariant [of ?s] e
  have "\<not> DAY_OF_MONTH_SCHEDULE_MATCH ''7''" "DATE_OF_YEAR_SCHEDULE_MATCH ''40.05''"
    by simp_all
  with e show ?thesis by simp
qed

section \<open>Properties of the ConfigProvider\<close>

text \<open>
  C2: the warning flags are created under the string keys \<open>"FileNotFoundError"\<close> and
  \<open>"ValueError"\<close> and read under the exception classes, so with a missing file, a file
  that is not JSON or a price that is not a number, the handler of \<open>check_cost_config\<close>
  raises \<open>KeyError\<close> before it logs or returns the default price, and so does the handler
  of \<open>check_cost_calc_request_time\<close> with a missing file. The state is left as it was.
\<close>

theorem check_cost_config_missing_file_raises:
  "check_cost_config FileNotFound scenario_float initial_state = (Inl KeyError, initial_state)
   \<and> check_cost_config InvalidJson scenario_float initial_state = (Inl KeyError, initial_state)
   \<and> check_cost_config
         (Loaded (JObj [(''general'', JObj [(''price_kwh'', JStr ''abc'')])]))
         scenario_float initial_state = (Inl KeyError, initial_state)
   \<and> check_cost_calc_request_time FileNotFound initial_state = (Inl KeyError, initial_state)"
  by (simp add: check_cost_config_def check_cost_calc_request_time_def warn_once_def
      initial_state_def configuration_failed_message_send_def price_of_def general_entry_def
      replace_comma_def scenario_float_def)

lemma warn_once_sink:
  "sink (snd (warn_once cls entry v st)) = sink st
   \<and> clock_reads (snd (warn_once cls entry v st)) = clock_reads st"
  by (simp add: warn_once_def write_log_def split: option.splits)

lemma check_cost_config_sink:
  "sink (snd (check_cost_config file f st)) = sink st
   \<and> clock_reads (snd (check_cost_config file f st)) = clock_reads st"
  by (simp add: check_cost_config_def warn_once_sink split: config_file.splits sum.splits)

lemma scenario_price:
  "check_cost_config (config scenario_env) (float_of_str scenario_env) st = (Inr (3 / 10), st)"
  by (simp add: scenario_env_def scenario_config_def check_cost_config_def price_of_def
      general_entry_def py_round_def round_half_even_def)


lemma scenario_day_window:
  "rd_sub scenario_now \<lparr>years = 0, months = 0, days = 1\<rparr> = Inr (scenario_now\<lparr>day := 30\<rparr>)"
  by (simp add: rd_sub_def rd_neg_def rd_add_def scenario_now_def replace_date_def
      valid_date_def days_in_month_def is_leap_def add_days_def prev_day_def)

lemma scenario_day_seconds:
  "total_seconds scenario_now (scenario_now\<lparr>day := 30\<rparr>) = 86400"
  by (simp add: total_seconds_def toordinal_def scenario_now_def)

lemma cost_calc_emits:
  assumes w: "rd_sub now td = Inr start"
    and f: "fetch_measurements ev dev (strftime start) (strftime now) = samples"
    and ne: "samples \<noteq> []"
    and p: "check_cost_config (config ev) (float_of_str ev) st = (Inr price, st1)"
    and u: "settings ''update_time'' = Some u" "py_number u = Inr update_time"
    and nz: "update_time \<noteq> 0" "total_seconds now start \<noteq> 0"
  shows "cost_calc ev dev settings now td st
     = (Inr (), route dev td
         \<lparr>start_date = strftime start,
          end_date = strftime now,
          sum_of_energy =
            py_round (sum_list (map energy_wh (filter fetch_success samples)) / 1000) 2,
          total_cost =
            py_round (sum_list (map energy_wh (filter fetch_success samples)) / 1000) 2 * price,
          cost_kwh = price,
          error_rate_one =
            of_nat (length (filter (\<lambda>m. \<not> fetch_success m) samples)) * 100
              / of_nat (length samples),
          error_rate_two =
            (total_seconds now start / update_time
               - of_nat (length (filter fetch_success samples))) * 100
              / (total_seconds now start / update_time)\<rparr> st1)"
proof -
  have len: "length (filter fetch_success samples)
               + length (filter (\<lambda>m. \<not> fetch_success m) samples) = length samples"
    by (rule sum_length_filter_compl)
  have pos: "length samples \<noteq> 0" using ne by simp
  have m: "py_truediv (total_seconds now start) update_time
             = Inr (total_seconds now start / update_time)"
    using nz by (simp add: py_truediv_def)
  have mz: "total_seconds now start / update_time \<noteq> 0" using nz by simp
  have ne2: "\<not> (filter fetch_success samples = []
                  \<and> filter (\<lambda>m. \<not> fetch_success m) samples = [])"
    using len pos by auto
  show ?thesis
    using w f p u pos mz ne2
    by (auto simp add: cost_calc_def Let_def m build_data_def py_truediv_def len)
qed

section \<open>Properties of the CostAggregator\<close>



lemma scenario_fetch:
  "fetch_measurements scenario_env dev s e = scenario_measurements"
  by (simp add: scenario_env_def scenario_store_def)

lemma scenario_counts:
  "length (filter fetch_success scenario_measurements) = 8"
  "length (filter (\<lambda>m. \<not> fetch_success m) scenario_measurements) = 2"
  "length scenario_measurements = 10"
  "sum_list (map energy_wh (filter fetch_success scenario_measurements)) = 8000"
  "scenario_measurements \<noteq> []"
  by (simp_all add: scenario_measurements_def succeeded_def failed_def)

lemma scenario_update_time:
  "scenario_settings ''update_time'' = Some (JInt 60)" "py_number (JInt 60) = Inr 60"
  by (simp_all add: scenario_settings_def)

text \<open>
  C3, as claimed, fails: with a window of length zero the expected sample count
  \<^verbatim>\<open>max_values\<close> is \<open>0 / 60 = 0\<close>, and with the ten points of the scenario \<open>cost_calc\<close>
  raises \<open>ZeroDivisionError\<close> in \<^verbatim>\<open>error_rate_two\<close>; no test of \<^verbatim>\<open>max_values\<close> precedes
  the division.
\<close>

theorem cost_calc_zero_expected_counterexample:
  "rd_sub scenario_now \<lparr>years = 0, months = 0, days = 0\<rparr> = Inr scenario_now
   \<and> scenario_settings ''update_time'' = Some (JInt 60)
   \<and> py_truediv (total_seconds scenario_now scenario_now) 60 = Inr 0
   \<and> fetch_measurements scenario_env ''dev'' (strftime scenario_now) (strftime scenario_now)
       = scenario_measurements
   \<and> cost_calc scenario_env ''dev'' scenario_settings scenario_now
         \<lparr>years = 0, months = 0, days = 0\<rparr> initial_state
       = (Inl ZeroDivisionError, initial_state)"
proof -
  have w: "rd_sub scenario_now \<lparr>years = 0, months = 0, days = 0\<rparr> = Inr scenario_now"
    by (simp add: rd_sub_def rd_neg_def rd_add_def scenario_now_def replace_date_def
        valid_date_def days_in_month_def is_leap_def add_days_def)
  have z: "py_truediv (total_seconds scenario_now scenario_now) 60 = Inr 0"
    by (simp add: py_truediv_def total_seconds_def)
  have ne: "\<not> (filter fetch_success scenario_measurements = []
                \<and> filter (\<lambda>m. \<not> fetch_success m) scenario_measurements = [])"
    by (simp add: scenario_measurements_def succeeded_def)
  have "cost_calc scenario_env ''dev'' scenario_settings scenario_now
         \<lparr>years = 0, months = 0, days = 0\<rparr> initial_state
       = (Inl ZeroDivisionError, initial_state)"
    using ne
    by (simp add: cost_calc_def w scenario_fetch scenario_price Let_def scenario_update_time z
        build_data_def scenario_counts)
       (simp add: py_truediv_def)
  with w z show ?thesis by (simp add: scenario_fetch scenario_update_time)
qed

text \<open>
  C3, amended: whenever the expected sample count evaluates to zero and the fetched sample
  set is not empty, the division of \<^verbatim>\<open>error_rate_two\<close> is not guarded: \<open>cost_calc\<close> raises
  \<open>ZeroDivisionError\<close> and hands no record to the sink.
\<close>

theorem cost_calc_zero_expected_raises:
  assumes "rd_sub now td = Inr start"
    and "fetch_measurements ev dev (strftime start) (strftime now) \<noteq> []"
    and "check_cost_config (config ev) (float_of_str ev) st = (Inr price, st1)"
    and "settings ''update_time'' = Some u" and "py_number u = Inr update_time"
    and "py_truediv (total_seconds now start) update_time = Inr 0"
  shows "cost_calc ev dev settings now td st = (Inl ZeroDivisionError, st1)
         \<and> sink st1 = sink st"
proof -
  let ?samples = "fetch_measurements ev dev (strftime start) (strftime now)"
  have len: "length (filter fetch_success ?samples)
               + length (filter (\<lambda>m. \<not> fetch_success m) ?samples) = length ?samples"
    by (rule sum_length_filter_compl)
  have ne: "\<not> (filter fetch_success ?samples = []
                \<and> filter (\<lambda>m. \<not> fetch_success m) ?samples = [])"
    using len assms(2) by auto
  have d: "length ?samples \<noteq> 0" using assms(2) by simp
  have c: "cost_calc ev dev settings now td st = (Inl ZeroDivisionError, st1)"
    using assms(1,3,4,5,6) ne d
    by (auto simp add: cost_calc_def Let_def build_data_def len)
       (simp_all add: py_truediv_def)
  have "sink st1 = sink st"
    using check_cost_config_sink [of "config ev" "float_of_str ev" st] assms(3) by simp
  with c show ?thesis by simp
qed


lemma scenario_zero_window:
  "rd_sub scenario_now \<lparr>years = 0, months = 0, days = 0\<rparr> = Inr scenario_now"
  by (simp add: rd_sub_def rd_neg_def rd_add_def scenario_now_def replace_date_def
      valid_date_def days_in_month_def is_leap_def add_days_def)

theorem cost_calc_zero_expected_raises_witness:
  "rd_sub scenario_now \<lparr>years = 0, months = 0, days = 0\<rparr> = Inr scenario_now
   \<and> fetch_measurements scenario_env ''dev'' (strftime scenario_now) (strftime scenario_now)
       \<noteq> []
   \<and> check_cost_config (config scenario_env) (float_of_str scenario_env) initial_state
       = (Inr (3 / 10), initial_state)
   \<and> scenario_settings ''update_time'' = Some (JInt 60) \<and> py_number (JInt 60) = Inr 60
   \<and> py_truediv (total_seconds scenario_now scenario_now) 60 = Inr 0
   \<and> fst (cost_calc scenario_env ''dev'' scenario_settings scenario_now
            \<lparr>years = 0, months = 0, days = 0\<rparr> initial_state) = Inl ZeroDivisionError"
proof -
  have f: "fetch_measurements scenario_env ''dev'' (strftime scenario_now)
             (strftime scenario_now) \<noteq> []"
    by (simp add: scenario_fetch scenario_counts)
  have z: "py_truediv (total_seconds scenario_now scenario_now) 60 = Inr 0"
    by (simp add: py_truediv_def total_seconds_def)
  show ?thesis
    using cost_calc_zero_expected_raises [where settings = scenario_settings,
        OF scenario_zero_window f scenario_price scenario_update_time z]
      scenario_zero_window f scenario_price [of initial_state] scenario_update_time z
    by simp
qed



lemma oversampling_negative:
  fixes m n :: rat
  assumes "0 < m" "m < n"
  shows "(m - n) * 100 / m < 0"
proof -
  from assms(2) have "(m - n) * 100 < 0" by simp
  then show ?thesis using assms(1) by (rule divide_neg_pos)
qed

text \<open>
  C7: for every non-empty fetched sample set with a non-zero expected sample count
  (the seconds of the window divided by \<^verbatim>\<open>update_time\<close>), \<open>error_rate_two\<close> is 100 times
  (expected minus successful) over expected; when more points succeeded than expected the
  value in the record is negative.
\<close>

theorem cost_calc_coverage_rate:
  assumes "rd_sub now td = Inr start"
    and "fetch_measurements ev dev (strftime start) (strftime now) = samples"
    and "samples \<noteq> []"
    and "check_cost_config (config ev) (float_of_str ev) st = (Inr price, st1)"
    and "settings ''update_time'' = Some u" and "py_number u = Inr update_time"
    and "update_time \<noteq> 0" and "total_seconds now start \<noteq> 0"
  shows "\<exists>data. cost_calc ev dev settings now td st = (Inr (), route dev td data st1)
           \<and> error_rate_two data
               = 100 * (total_seconds now start / update_time
                          - of_nat (length (filter fetch_success samples)))
                   / (total_seconds now start / update_time)
           \<and> (0 < total_seconds now start / update_time
                \<and> total_seconds now start / update_time
                    < of_nat (length (filter fetch_success samples))
                \<longrightarrow> error_rate_two data < 0)"
proof -
  let ?m = "total_seconds now start / update_time"
  let ?n = "of_nat (length (filter fetch_success samples)) :: rat"
  let ?data = "\<lparr>start_date = strftime start,
          end_date = strftime now,
          sum_of_energy =
            py_round (sum_list (map energy_wh (filter fetch_success samples)) / 1000) 2,
          total_cost =
            py_round (sum_list (map energy_wh (filter fetch_success samples)) / 1000) 2 * price,
          cost_kwh = price,
          error_rate_one =
            of_nat (length (filter (\<lambda>m. \<not> fetch_success m) samples)) * 100
              / of_nat (length samples),
          error_rate_two = (?m - ?n) * 100 / ?m\<rparr>"
  have "cost_calc ev dev settings now td st = (Inr (), route dev td ?data st1)"
    by (rule cost_calc_emits [where settings = settings, OF assms])
  moreover have "error_rate_two ?data = 100 * (?m - ?n) / ?m"
    by (simp only: cost_data.select_convs mult.commute)
  moreover have "0 < ?m \<and> ?m < ?n \<longrightarrow> error_rate_two ?data < 0"
  proof
    assume "0 < ?m \<and> ?m < ?n"
    then have "(?m - ?n) * 100 / ?m < 0"
      using oversampling_negative [of ?m ?n] by blast
    then show "error_rate_two ?data < 0"
      by (simp only: cost_data.select_convs)
  qed
  ultimately show ?thesis by blast
qed

theorem cost_calc_coverage_rate_witness:
  "rd_sub scenario_now \<lparr>years = 0, months = 0, days = 1\<rparr> = Inr (scenario_now\<lparr>day := 30\<rparr>)
   \<and> fetch_measurements scenario_env ''dev'' (strftime (scenario_now\<lparr>day := 30\<rparr>))
         (strftime scenario_now) = scenario_measurements
   \<and> scenario_measurements \<noteq> []
   \<and> length (filter fetch_success scenario_measurements) = 8
   \<and> check_cost_config (config scenario_env) (float_of_str scenario_env) initial_state
       = (Inr (3 / 10), initial_state)
   \<and> [''update_time'' \<mapsto> JInt 43200] ''update_time'' = Some (JInt 43200)
   \<and> py_number (JInt 43200) = Inr 43200
   \<and> total_seconds scenario_now (scenario_now\<lparr>day := 30\<rparr>) / 43200 = 2
   \<and> (\<exists>data. cost_calc scenario_env ''dev'' [''update_time'' \<mapsto> JInt 43200] scenario_now
                 \<lparr>years = 0, months = 0, days = 1\<rparr> initial_state
               = (Inr (), cost_logging ''dev_day'' data initial_state)
             \<and> error_rate_two data = - 300)"
proof -
  have nz: "(43200::rat) \<noteq> 0" "total_seconds scenario_now (scenario_now\<lparr>day := 30\<rparr>) \<noteq> 0"
    by (simp_all add: scenario_day_seconds)
  have u: "[''update_time'' \<mapsto> JInt 43200] ''update_time'' = Some (JInt 43200)"
    "py_number (JInt 43200) = Inr 43200"
    by simp_all
  from cost_calc_coverage_rate [where settings = "[''update_time'' \<mapsto> JInt 43200]",
      OF scenario_day_window scenario_fetch scenario_counts(5) scenario_price u nz,
      of "''dev''" initial_state]
  obtain data where
    d: "cost_calc scenario_env ''dev'' [''update_time'' \<mapsto> JInt 43200] scenario_now
          \<lparr>years = 0, months = 0, days = 1\<rparr> initial_state
        = (Inr (), route ''dev'' \<lparr>years = 0, months = 0, days = 1\<rparr> data initial_state)"
      "error_rate_two data = - 300"
    by (auto simp add: scenario_counts scenario_day_seconds)
  from d have "\<exists>data. cost_calc scenario_env ''dev'' [''update_time'' \<mapsto> JInt 43200]
                 scenario_now \<lparr>years = 0, months = 0, days = 1\<rparr> initial_state
               = (Inr (), cost_logging ''dev_day'' data initial_state)
             \<and> error_rate_two data = - 300"
    by (auto simp add: route_def)
  then show ?thesis
    using scenario_day_window scenario_fetch scenario_counts scenario_price [of initial_state]
      u scenario_day_seconds
    by simp
qed

section \<open>Properties of the DispatchHandler\<close>























end
